theory Spec2Isabelle
  imports Complex_Main "HOL-Library.AList"
begin

section \<open>Immune memory service: data model\<close>

text \<open>
  Shallow embedding of \<^verbatim>\<open>src/backend/services/immuneMemoryService.ts\<close>.

  Conventions of the embedding.
  \<^item> A JavaScript number that the service receives (an amount, a resilience impact, the
    resilience score) is a \<^typ>\<open>real\<close>, the value of a finite double. Every arithmetic
    operation of the service is the exact operation followed by rounding to binary64
    (\<open>fadd\<close>, \<open>fsub\<close>, \<open>fmul\<close>, \<open>fdiv\<close>), and a decimal literal such as \<^verbatim>\<open>0.3\<close> is
    the double nearest to it (\<open>dbl 0.3\<close>); literals that are doubles already (\<open>0.5\<close>,
    \<open>1.5\<close>, \<open>50\<close>) are written as they are. Where the service divides by a quantity
    that can be zero, the result is a \<open>number\<close>, which adds the values \<open>NaN\<close> and the two
    infinities that such a division produces.
  \<^item> A \<^verbatim>\<open>Date\<close> is its \<^verbatim>\<open>getTime()\<close> value, an \<^typ>\<open>int\<close> of milliseconds; a field
    that stores \<^verbatim>\<open>toISOString()\<close> of a date stores that instant.
  \<^item> \<^verbatim>\<open>Date.now()\<close>, \<^verbatim>\<open>new Date()\<close> and \<^verbatim>\<open>Math.random()\<close> are inputs: every function
    that reads the clock takes the reading \<open>now\<close> as an argument (one reading for one
    synchronous helper), every function that draws a random suffix takes it as \<open>rnd\<close>.
  \<^item> \<^verbatim>\<open>dataStore.getTransactions()\<close> is the argument \<open>ledger\<close>, the list of stored
    transactions in insertion order.
  \<^item> A JavaScript \<^verbatim>\<open>Map\<close> is an association list in insertion order, read with
    \<^const>\<open>map_of\<close> and written with \<^const>\<open>AList.update\<close> (an existing key keeps its
    place, a new key goes to the end), as \<^verbatim>\<open>Map.prototype.set\<close> does.
  \<^item> The service mutates \<^verbatim>\<open>this.memory\<close>; the model passes the memory in and returns
    the updated one.
\<close>

datatype ThreatLevel = LOW | MEDIUM | HIGH | CRITICAL

datatype TimePattern = Regular | Sporadic | Increasing | Decreasing

datatype Adjustment = Increase | Decrease | Maintain

datatype Outcome = Success | Failure | Pending

datatype number = Finite real | NaN | PosInfinity | NegInfinity

text \<open>The fields of a transaction that the service reads.\<close>

record Transaction =
  tx_id :: string
  timestamp :: int
  recipient :: string
  amount :: real
  purpose :: "string option"

text \<open>The fields of a decision that the service reads.\<close>

record ImmuneDecisionResponse =
  explanation :: string
  threat_level :: ThreatLevel
  patterns_detected :: "string list"
  resilience_impact :: real

record PatternOccurrence =
  transactionId :: string
  occ_timestamp :: int
  severity :: number
  occ_context :: string

record EconomicPattern =
  pat_id :: string
  pat_type :: string
  pat_description :: string
  pat_detectedAt :: int
  occurrences :: "PatternOccurrence list"
  threatLevel :: ThreatLevel
  isActive :: bool
  learningConfidence :: real
  totalImpact :: real

record TransactionHistory =
  tx_count :: nat
  totalAmount :: real
  averageAmount :: number
  purposes :: "(string \<times> nat) list"
  timePattern :: TimePattern

record RiskAssessment =
  concentrationRisk :: real
  convenienceBias :: number
  valueDecline :: real
  overallRisk :: real

record RecipientProfile =
  address :: string
  transactionHistory :: TransactionHistory
  riskAssessment :: RiskAssessment
  lastInteraction :: int

record RiskSignal =
  sig_id :: string
  sig_type :: string
  sig_severity :: ThreatLevel
  sig_description :: string
  sig_detectedAt :: int
  relatedTransactions :: "string list"
  isResolved :: bool

record AdaptationEvent =
  ad_id :: string
  ad_timestamp :: int
  patternType :: string
  adjustment :: Adjustment
  reason :: string
  outcome :: Outcome

record ImmuneMemory =
  patterns :: "(string \<times> EconomicPattern) list"
  recipients :: "(string \<times> RecipientProfile) list"
  signals :: "RiskSignal list"
  adaptations :: "AdaptationEvent list"
  resilienceScore :: real
  lastUpdated :: int

section \<open>JavaScript helpers\<close>

subsection \<open>Binary64 arithmetic\<close>

text \<open>
  A finite double is a real of the form \<open>m * 2 ^ e\<close> with an integer \<open>m\<close> of at most 53
  bits and \<open>e \<ge> -1074\<close>. \<open>dbl x\<close> is the double nearest to \<open>x\<close>, a tie going to the
  even significand (IEEE 754 round-to-nearest-even, the only rounding mode of
  JavaScript). Overflow to an infinity is not modelled: \<open>dbl\<close> keeps rounding to 53 bits
  above the largest double.
\<close>

definition round_half_even :: "real \<Rightarrow> int" where
  "round_half_even x =
     (let f = \<lfloor>x\<rfloor>; r = x - of_int f
      in if r < 1 / 2 then f
         else if r > 1 / 2 then f + 1
         else if even f then f else f + 1)"

text \<open>For \<open>x \<ge> 1\<close>: the number of halvings that bring \<open>x\<close> below 2, added to \<open>e\<close>.\<close>

function halvings :: "real \<Rightarrow> int \<Rightarrow> int" where
  "halvings x e = (if x < 2 then e else halvings (x / 2) (e + 1))"
  by pat_completeness auto
termination
proof (relation "measure (\<lambda>(x, e). nat \<lfloor>x\<rfloor>)")
  show "wf (measure (\<lambda>(x, e). nat \<lfloor>x\<rfloor>))" by simp
next
  fix x :: real and e :: int
  assume large: "\<not> x < 2"
  then have "x / 2 \<le> x - 1" by simp
  then have "\<lfloor>x / 2\<rfloor> \<le> \<lfloor>x - 1\<rfloor>" by (rule floor_mono)
  moreover have "1 \<le> \<lfloor>x - 1\<rfloor>" using large by (simp add: le_floor_iff)
  ultimately show "((x / 2, e + 1), (x, e)) \<in> measure (\<lambda>(x, e). nat \<lfloor>x\<rfloor>)"
    by simp
qed

declare halvings.simps [simp del]

text \<open>
  For \<open>x < 1\<close>: the doublings that bring \<open>x\<close> to 1 or above, subtracted from \<open>e\<close>, but
  at most \<open>n\<close> of them: below \<open>2 ^ -1022\<close> the doubles are subnormal and share one
  exponent.
\<close>

fun doublings :: "nat \<Rightarrow> real \<Rightarrow> int \<Rightarrow> int" where
  "doublings n x e = (if n = 0 \<or> 1 \<le> x then e else doublings (n - 1) (x * 2) (e - 1))"

declare doublings.simps [simp del]

text \<open>The exponent \<open>e\<close> of the binade of \<open>x\<close>: \<open>2 ^ e \<le> \<bar>x\<bar> < 2 ^ (e + 1)\<close>, and \<open>e \<ge> -1022\<close>.\<close>

definition binade :: "real \<Rightarrow> int" where
  "binade x = (if 1 \<le> \<bar>x\<bar> then halvings \<bar>x\<bar> 0 else doublings 1022 \<bar>x\<bar> 0)"

definition pow2 :: "int \<Rightarrow> real" where
  "pow2 e = (if 0 \<le> e then 2 ^ nat e else 1 / 2 ^ nat (- e))"

definition dbl :: "real \<Rightarrow> real" where
  "dbl x =
     (if x = 0 then 0
      else let q = pow2 (binade x - 52)
           in of_int (round_half_even (x / q)) * q)"

text \<open>The four operations on doubles: the exact result, rounded.\<close>

definition fadd :: "real \<Rightarrow> real \<Rightarrow> real" where
  "fadd a b = dbl (a + b)"

definition fsub :: "real \<Rightarrow> real \<Rightarrow> real" where
  "fsub a b = dbl (a - b)"

definition fmul :: "real \<Rightarrow> real \<Rightarrow> real" where
  "fmul a b = dbl (a * b)"

definition fdiv :: "real \<Rightarrow> real \<Rightarrow> real" where
  "fdiv a b = dbl (a / b)"

text \<open>
  \<^verbatim>\<open>Math.pow(x, 2)\<close>. The language leaves the accuracy of \<^verbatim>\<open>Math.pow\<close> to the
  implementation; the model takes the correctly rounded square, the value of
  \<^verbatim>\<open>x * x\<close>.
\<close>

definition math_pow_2 :: "real \<Rightarrow> real" where
  "math_pow_2 x = fmul x x"

text \<open>\<^verbatim>\<open>xs.reduce((sum, x) => sum + f(x), 0)\<close>: the running sum is rounded at each step.\<close>

definition reduce_sum :: "('a \<Rightarrow> real) \<Rightarrow> 'a list \<Rightarrow> real" where
  "reduce_sum f xs = foldl (\<lambda>sum x. fadd sum (f x)) 0 xs"

subsection \<open>Division, comparison, slices and strings\<close>

text \<open>\<^verbatim>\<open>a / b\<close> on finite numbers: a zero divisor gives an infinity or \<open>NaN\<close>.\<close>

definition js_div :: "real \<Rightarrow> real \<Rightarrow> number" where
  "js_div a b =
     (if b \<noteq> 0 then Finite (fdiv a b)
      else if 0 < a then PosInfinity
      else if a < 0 then NegInfinity
      else NaN)"

text \<open>\<^verbatim>\<open>x < r\<close> and \<^verbatim>\<open>x > r\<close> for a finite \<open>r\<close>: every comparison with \<open>NaN\<close> is false.\<close>

fun js_lt :: "number \<Rightarrow> real \<Rightarrow> bool" where
  "js_lt (Finite x) r = (x < r)"
| "js_lt NaN r = False"
| "js_lt PosInfinity r = False"
| "js_lt NegInfinity r = True"

fun js_gt :: "number \<Rightarrow> real \<Rightarrow> bool" where
  "js_gt (Finite x) r = (x > r)"
| "js_gt NaN r = False"
| "js_gt PosInfinity r = True"
| "js_gt NegInfinity r = False"

text \<open>\<^verbatim>\<open>xs.slice(-n)\<close>: the last \<open>n\<close> elements, the whole list when it is shorter.\<close>

definition slice_last :: "nat \<Rightarrow> 'a list \<Rightarrow> 'a list" where
  "slice_last n xs = drop (length xs - n) xs"

text \<open>\<^verbatim>\<open>s || d\<close> for an optional string: absent and empty are both falsy.\<close>

fun or_default :: "string option \<Rightarrow> string \<Rightarrow> string" where
  "or_default None d = d"
| "or_default (Some s) d = (if s = [] then d else s)"

text \<open>\<^verbatim>\<open>x % 10 === 0\<close>: \<open>x\<close> is a whole multiple of ten.\<close>

definition mod10_is_zero :: "real \<Rightarrow> bool" where
  "mod10_is_zero x = (x = 10 * of_int \<lfloor>x / 10\<rfloor>)"

text \<open>The decimal rendering of an integer inside a template string.\<close>

fun decimal :: "nat \<Rightarrow> string" where
  "decimal n =
     (if n < 10 then [''0123456789'' ! n]
      else decimal (n div 10) @ [''0123456789'' ! (n mod 10)])"

declare decimal.simps [simp del]

definition show_int :: "int \<Rightarrow> string" where
  "show_int i = (if i < 0 then CHR ''-'' # decimal (nat (- i)) else decimal (nat i))"

fun show_threat :: "ThreatLevel \<Rightarrow> string" where
  "show_threat LOW = ''LOW''"
| "show_threat MEDIUM = ''MEDIUM''"
| "show_threat HIGH = ''HIGH''"
| "show_threat CRITICAL = ''CRITICAL''"

section \<open>Recipient profiles\<close>

text \<open>
  \<^verbatim>\<open>amounts.slice(1).every((amount, i) => amount >= amounts[i])\<close>: every element is
  compared with its predecessor.
\<close>

definition every_vs_previous :: "(real \<Rightarrow> real \<Rightarrow> bool) \<Rightarrow> real list \<Rightarrow> bool" where
  "every_vs_previous cmp amounts = list_all (\<lambda>(a, prev). cmp a prev) (zip (tl amounts) amounts)"

definition intervals_of :: "Transaction list \<Rightarrow> real list" where
  "intervals_of transactions =
     map (\<lambda>(cur, prev). fsub (real_of_int (timestamp cur)) (real_of_int (timestamp prev)))
         (zip (tl transactions) transactions)"

definition analyzeTimePattern :: "Transaction list \<Rightarrow> TimePattern" where
  "analyzeTimePattern transactions =
     (if length transactions < 3 then Sporadic
      else
        let intervals = intervals_of transactions;
            avgInterval = fdiv (reduce_sum (\<lambda>i. i) intervals) (real (length intervals));
            variance =
              fdiv (reduce_sum (\<lambda>i. math_pow_2 (fsub i avgInterval)) intervals)
                   (real (length intervals))
        in if variance < fmul avgInterval (dbl 0.3) then Regular
           else
             let amounts = map amount transactions;
                 isIncreasing = every_vs_previous (\<lambda>a prev. a \<ge> prev) amounts;
                 isDecreasing = every_vs_previous (\<lambda>a prev. a \<le> prev) amounts
             in if isIncreasing then Increasing
                else if isDecreasing then Decreasing
                else Sporadic)"

definition calculateConcentrationRisk :: "Transaction list \<Rightarrow> real \<Rightarrow> real" where
  "calculateConcentrationRisk ledger recipientTotal =
     (let totalSpending = reduce_sum amount ledger
      in if totalSpending = 0 then 0
         else min 1.0 (fmul (fdiv recipientTotal totalSpending) 2))"

definition calculateConvenienceBias :: "Transaction list \<Rightarrow> number" where
  "calculateConvenienceBias transactions =
     (let roundAmounts = filter (\<lambda>tx. mod10_is_zero (amount tx) \<and> amount tx > 50) transactions
      in js_div (real (length roundAmounts)) (real (length transactions)))"

definition calculateValueDecline :: "Transaction list \<Rightarrow> real" where
  "calculateValueDecline transactions =
     (if length transactions < 3 then 0
      else
        let amounts = map amount transactions;
            recentAvg = fdiv (reduce_sum (\<lambda>a. a) (slice_last 3 amounts)) 3;
            earlierAvg = fdiv (reduce_sum (\<lambda>a. a) (take 3 amounts)) 3
        in if recentAvg > fmul earlierAvg (dbl 1.2) then dbl 0.6 else 0)"

text \<open>\<^verbatim>\<open>purposes.set(p, (purposes.get(p) || 0) + 1)\<close> for every truthy purpose.\<close>

fun count_purpose :: "(string \<times> nat) list \<Rightarrow> Transaction \<Rightarrow> (string \<times> nat) list" where
  "count_purpose ps tx =
     (case purpose tx of
        None \<Rightarrow> ps
      | Some p \<Rightarrow>
          if p = [] then ps
          else AList.update p ((case map_of ps p of None \<Rightarrow> 0 | Some c \<Rightarrow> c) + 1) ps)"

definition buildRecipientProfile ::
  "int \<Rightarrow> Transaction list \<Rightarrow> string \<Rightarrow> Transaction list \<Rightarrow> RecipientProfile" where
  "buildRecipientProfile now ledger addr transactions =
     (let total = reduce_sum amount transactions
      in \<lparr> address = addr,
           transactionHistory =
             \<lparr> tx_count = length transactions,
               totalAmount = total,
               averageAmount = js_div total (real (length transactions)),
               purposes = foldl count_purpose [] transactions,
               timePattern = analyzeTimePattern transactions \<rparr>,
           riskAssessment =
             \<lparr> concentrationRisk = calculateConcentrationRisk ledger total,
               convenienceBias = calculateConvenienceBias transactions,
               valueDecline = calculateValueDecline transactions,
               overallRisk = 0 \<rparr>,
           lastInteraction =
             (if transactions = [] then now else timestamp (last transactions)) \<rparr>)"

definition updateRecipientProfile ::
  "int \<Rightarrow> Transaction list \<Rightarrow> Transaction \<Rightarrow> ImmuneMemory \<Rightarrow> ImmuneMemory" where
  "updateRecipientProfile now ledger transaction memory =
     (let existing = map_of (recipients memory) (recipient transaction);
          allRecipientTxs = filter (\<lambda>tx. recipient tx = recipient transaction) ledger;
          profile = (case existing of
                       Some p \<Rightarrow> p
                     | None \<Rightarrow> buildRecipientProfile now ledger (recipient transaction) allRecipientTxs)
      in memory\<lparr>recipients := AList.update (recipient transaction) profile (recipients memory)\<rparr>)"

section \<open>Pattern detectors\<close>

definition detectRecurringMicroCosts ::
  "int \<Rightarrow> Transaction \<Rightarrow> Transaction list \<Rightarrow> EconomicPattern option" where
  "detectRecurringMicroCosts now newTransaction allTransactions =
     (if amount newTransaction \<ge> 50 then None
      else
        let recipientTxs =
              filter (\<lambda>tx. recipient tx = recipient newTransaction \<and> amount tx < 50)
                     allTransactions
        in if length recipientTxs < 3 then None
           else
             let total = reduce_sum amount recipientTxs
             in Some \<lparr> pat_id = ''pattern-micro-'' @ show_int now,
                       pat_type = ''recurring_micro_costs'',
                       pat_description =
                         ''Recurring small payments to '' @ recipient newTransaction,
                       pat_detectedAt = now,
                       occurrences =
                         map (\<lambda>tx. \<lparr> transactionId = tx_id tx,
                                     occ_timestamp = timestamp tx,
                                     severity = Finite (fdiv (amount tx) 50),
                                     occ_context =
                                       or_default (purpose tx) ''No purpose specified'' \<rparr>)
                             recipientTxs,
                       threatLevel =
                         (if total > 200 then HIGH else if total > 100 then MEDIUM else LOW),
                       isActive = True,
                       learningConfidence = dbl 0.7,
                       totalImpact = total \<rparr>)"

text \<open>
  \<^verbatim>\<open>Math.round(x)\<close> is the integer nearest to \<open>x\<close>, a tie going up: \<open>\<lfloor>x + 1 / 2\<rfloor>\<close>.
\<close>

definition detectVendorConcentration ::
  "int \<Rightarrow> Transaction \<Rightarrow> Transaction list \<Rightarrow> EconomicPattern option" where
  "detectVendorConcentration now newTransaction allTransactions =
     (let recipientTotal =
            reduce_sum amount
              (filter (\<lambda>tx. recipient tx = recipient newTransaction) allTransactions);
          totalSpending = reduce_sum amount allTransactions
      in if totalSpending = 0 then None
         else
           let concentration = fdiv recipientTotal totalSpending
           in if concentration < dbl 0.3 then None
              else Some \<lparr> pat_id = ''pattern-concentration-'' @ show_int now,
                          pat_type = ''vendor_concentration'',
                          pat_description =
                            ''High concentration of spending with ''
                              @ recipient newTransaction,
                          pat_detectedAt = now,
                          occurrences =
                            [\<lparr> transactionId = tx_id newTransaction,
                               occ_timestamp = now,
                               severity = Finite concentration,
                               occ_context =
                                 show_int \<lfloor>fmul concentration 100 + 1 / 2\<rfloor>
                                   @ ''% of total spending'' \<rparr>],
                          threatLevel =
                            (if concentration > dbl 0.6 then HIGH
                             else if concentration > dbl 0.4 then MEDIUM else LOW),
                          isActive = True,
                          learningConfidence = dbl 0.8,
                          totalImpact = recipientTotal \<rparr>)"

text \<open>
  The two detectors below render a number inside a template string; the runtime's
  number-to-string conversion \<open>numToString\<close> and \<^verbatim>\<open>toFixed(2)\<close> are parameters.
\<close>

definition detectConvenienceBias ::
  "int \<Rightarrow> (real \<Rightarrow> string) \<Rightarrow> Transaction \<Rightarrow> Transaction list \<Rightarrow> EconomicPattern option"
  where
  "detectConvenienceBias now numToString newTransaction allTransactions =
     (if \<not> mod10_is_zero (amount newTransaction) \<or> amount newTransaction \<le> 50 then None
      else
        let roundAmountTxs =
              filter (\<lambda>tx. mod10_is_zero (amount tx) \<and> amount tx > 50) allTransactions;
            biasRatio =
              js_div (real (length roundAmountTxs)) (real (length allTransactions))
        in if js_lt biasRatio (dbl 0.6) then None
           else Some \<lparr> pat_id = ''pattern-convenience-'' @ show_int now,
                       pat_type = ''convenience_bias'',
                       pat_description =
                         ''Frequent use of round payment amounts suggesting convenience bias'',
                       pat_detectedAt = now,
                       occurrences =
                         map (\<lambda>tx. \<lparr> transactionId = tx_id tx,
                                     occ_timestamp = timestamp tx,
                                     severity = biasRatio,
                                     occ_context =
                                       ''Round amount: '' @ numToString (amount tx)
                                         @ '' USDC'' \<rparr>)
                             (slice_last 5 roundAmountTxs),
                       threatLevel = (if js_gt biasRatio (dbl 0.8) then MEDIUM else LOW),
                       isActive = True,
                       learningConfidence = dbl 0.6,
                       totalImpact =
                         reduce_sum (\<lambda>tx. fmul (amount tx) (dbl 0.1)) roundAmountTxs \<rparr>)"

text \<open>
  \<^verbatim>\<open>Array.prototype.sort\<close> with the comparator \<^verbatim>\<open>a.timestamp - b.timestamp\<close> is a
  stable sort by timestamp, as \<^const>\<open>sort_key\<close> is.
\<close>

definition detectDecliningValue ::
  "int \<Rightarrow> (real \<Rightarrow> string) \<Rightarrow> (real \<Rightarrow> string) \<Rightarrow> Transaction \<Rightarrow> Transaction list
     \<Rightarrow> EconomicPattern option" where
  "detectDecliningValue now numToString toFixed2 newTransaction allTransactions =
     (let recipientTxs =
            sort_key timestamp
              (filter (\<lambda>tx. recipient tx = recipient newTransaction) allTransactions)
      in if length recipientTxs < 4 then None
         else
           let recentAvg = fdiv (reduce_sum amount (slice_last 2 recipientTxs)) 2;
               earlierAvg = fdiv (reduce_sum amount (take 2 recipientTxs)) 2
           in if recentAvg \<le> fmul earlierAvg (dbl 1.2) then None
              else Some \<lparr> pat_id = ''pattern-declining-'' @ show_int now,
                          pat_type = ''declining_value'',
                          pat_description =
                            ''Increasing payments to '' @ recipient newTransaction
                              @ '' may indicate declining value'',
                          pat_detectedAt = now,
                          occurrences =
                            map (\<lambda>tx. \<lparr> transactionId = tx_id tx,
                                        occ_timestamp = timestamp tx,
                                        severity = js_div (amount tx) earlierAvg,
                                        occ_context =
                                          ''Amount: '' @ numToString (amount tx)
                                            @ '' vs earlier avg: '' @ toFixed2 earlierAvg \<rparr>)
                                (slice_last 3 recipientTxs),
                          threatLevel =
                            (if recentAvg > fmul earlierAvg 1.5 then HIGH else MEDIUM),
                          isActive = True,
                          learningConfidence = 0.5,
                          totalImpact = fsub recentAvg earlierAvg \<rparr>)"

text \<open>\<^verbatim>\<open>detectPatterns\<close> pushes the result of each detector that fired, in this order.\<close>

definition detectPatterns ::
  "int \<Rightarrow> (real \<Rightarrow> string) \<Rightarrow> (real \<Rightarrow> string) \<Rightarrow> Transaction list \<Rightarrow> Transaction
     \<Rightarrow> EconomicPattern list" where
  "detectPatterns now numToString toFixed2 ledger newTransaction =
     List.map_filter (\<lambda>p. p)
       [detectRecurringMicroCosts now newTransaction ledger,
        detectVendorConcentration now newTransaction ledger,
        detectConvenienceBias now numToString newTransaction ledger,
        detectDecliningValue now numToString toFixed2 newTransaction ledger]"

section \<open>The immune memory store\<close>

text \<open>The memory that the constructor builds at time \<open>now\<close>.\<close>

definition initialMemory :: "int \<Rightarrow> ImmuneMemory" where
  "initialMemory now =
     \<lparr> patterns = [], recipients = [], signals = [], adaptations = [],
       resilienceScore = 75, lastUpdated = now \<rparr>"

fun severity_of :: "ThreatLevel \<Rightarrow> real" where
  "severity_of CRITICAL = 1.0"
| "severity_of HIGH = dbl 0.8"
| "severity_of MEDIUM = dbl 0.6"
| "severity_of LOW = dbl 0.4"

definition patternKey :: "string \<Rightarrow> Transaction \<Rightarrow> int \<Rightarrow> string" where
  "patternKey ptype transaction now =
     ptype @ ''-'' @ recipient transaction @ ''-'' @ show_int now"

definition newOccurrence :: "Transaction \<Rightarrow> ThreatLevel \<Rightarrow> PatternOccurrence" where
  "newOccurrence transaction level =
     \<lparr> transactionId = tx_id transaction,
       occ_timestamp = timestamp transaction,
       severity = Finite (severity_of level),
       occ_context = or_default (purpose transaction) ''No context'' \<rparr>"

definition recordPatternDetection ::
  "int \<Rightarrow> string \<Rightarrow> Transaction \<Rightarrow> ThreatLevel \<Rightarrow> ImmuneMemory \<Rightarrow> ImmuneMemory" where
  "recordPatternDetection now ptype transaction level memory =
     (let patternId = patternKey ptype transaction now
      in case map_of (patterns memory) patternId of
           Some existingPattern \<Rightarrow>
             memory\<lparr>patterns :=
               AList.update patternId
                 (existingPattern\<lparr>occurrences :=
                    occurrences existingPattern @ [newOccurrence transaction level]\<rparr>)
                 (patterns memory)\<rparr>
         | None \<Rightarrow>
             memory\<lparr>patterns :=
               AList.update patternId
                 \<lparr> pat_id = patternId,
                   pat_type = ptype,
                   pat_description =
                     ptype @ '' detected for '' @ recipient transaction,
                   pat_detectedAt = now,
                   occurrences = [newOccurrence transaction level],
                   threatLevel = level,
                   isActive = True,
                   learningConfidence = 0.5,
                   totalImpact = amount transaction \<rparr>
                 (patterns memory)\<rparr>)"

definition updateResilienceScore :: "real \<Rightarrow> ImmuneMemory \<Rightarrow> ImmuneMemory" where
  "updateResilienceScore impact memory =
     memory\<lparr>resilienceScore := max 0 (min 100 (fadd (resilienceScore memory) impact))\<rparr>"

text \<open>
  \<^verbatim>\<open>decision.patterns_detected[0] || 'recurring_micro_costs'\<close>: the first label, unless
  it is absent or the empty string.
\<close>

fun first_label_or_default :: "string list \<Rightarrow> string" where
  "first_label_or_default [] = ''recurring_micro_costs''"
| "first_label_or_default (l # ls) = (if l = [] then ''recurring_micro_costs'' else l)"

definition generateRiskSignal ::
  "int \<Rightarrow> string \<Rightarrow> Transaction \<Rightarrow> ImmuneDecisionResponse \<Rightarrow> ImmuneMemory \<Rightarrow> ImmuneMemory"
  where
  "generateRiskSignal now rnd transaction decision memory =
     memory\<lparr>signals := signals memory @
       [\<lparr> sig_id = ''signal-'' @ show_int now @ ''-'' @ rnd,
          sig_type = first_label_or_default (patterns_detected decision),
          sig_severity = threat_level decision,
          sig_description =
            show_threat (threat_level decision) @ '' threat detected: ''
              @ explanation decision,
          sig_detectedAt = now,
          relatedTransactions = [tx_id transaction],
          isResolved = False \<rparr>]\<rparr>"

text \<open>
  The clock and random readings of one \<^verbatim>\<open>updateMemoryFromTransaction\<close> call:
  \<open>pattern_now i\<close> is the reading during the \<open>i\<close>-th iteration of the loop over the
  detected labels.
\<close>

record Readings =
  profile_now :: int
  pattern_now :: "nat \<Rightarrow> int"
  signal_now :: int
  signal_rnd :: string
  updated_now :: int

definition recordAll ::
  "(nat \<Rightarrow> int) \<Rightarrow> Transaction \<Rightarrow> ThreatLevel \<Rightarrow> (nat \<times> string) list \<Rightarrow> ImmuneMemory
     \<Rightarrow> ImmuneMemory" where
  "recordAll clock transaction level labels memory =
     foldl (\<lambda>m (i, ptype). recordPatternDetection (clock i) ptype transaction level m)
           memory labels"

definition updateMemoryFromTransaction ::
  "Readings \<Rightarrow> Transaction list \<Rightarrow> Transaction \<Rightarrow> ImmuneDecisionResponse \<Rightarrow> ImmuneMemory
     \<Rightarrow> ImmuneMemory" where
  "updateMemoryFromTransaction env ledger transaction decision memory =
     (let m1 = updateRecipientProfile (profile_now env) ledger transaction memory;
          m2 = recordAll (pattern_now env) transaction (threat_level decision)
                 (enumerate 0 (patterns_detected decision)) m1;
          m3 = updateResilienceScore (resilience_impact decision) m2;
          m4 = (if threat_level decision = HIGH \<or> threat_level decision = CRITICAL
                then generateRiskSignal (signal_now env) (signal_rnd env)
                       transaction decision m3
                else m3)
      in m4\<lparr>lastUpdated := updated_now env\<rparr>)"

text \<open>A sequence of calls, each with its readings, the ledger at that time and its inputs.\<close>

fun processAll ::
  "(Readings \<times> Transaction list \<times> Transaction \<times> ImmuneDecisionResponse) list
     \<Rightarrow> ImmuneMemory \<Rightarrow> ImmuneMemory" where
  "processAll [] memory = memory"
| "processAll ((env, ledger, transaction, decision) # calls) memory =
     processAll calls (updateMemoryFromTransaction env ledger transaction decision memory)"

section \<open>Sensitivity adaptation\<close>

definition adaptConfidence :: "Outcome \<Rightarrow> real \<Rightarrow> real" where
  "adaptConfidence out c =
     (if out = Success then min 1.0 (fadd c (dbl 0.1)) else max (dbl 0.1) (fsub c (dbl 0.1)))"

text \<open>
  The parameter \<open>out\<close> of \<^verbatim>\<open>adaptSensitivity\<close> has the type
  \<^verbatim>\<open>'success' | 'failure'\<close>; every value other than \<open>Success\<close> takes the second branch.
\<close>

definition adaptSensitivity ::
  "int \<Rightarrow> string \<Rightarrow> string \<Rightarrow> Outcome \<Rightarrow> ImmuneMemory \<Rightarrow> ImmuneMemory" where
  "adaptSensitivity now rnd ptype out memory =
     (let adaptation =
            \<lparr> ad_id = ''adapt-'' @ show_int now @ ''-'' @ rnd,
              ad_timestamp = now,
              patternType = ptype,
              adjustment = (if out = Success then Maintain else Increase),
              reason = (if out = Success then ''Pattern detection was accurate''
                        else ''Pattern detection needs improvement''),
              outcome = out \<rparr>
      in memory\<lparr>adaptations := adaptations memory @ [adaptation],
                patterns :=
                  map (\<lambda>(k, p).
                         if pat_type p = ptype
                         then (k, p\<lparr>learningConfidence :=
                                      adaptConfidence out (learningConfidence p)\<rparr>)
                         else (k, p))
                      (patterns memory)\<rparr>)"

section \<open>Concrete inputs\<close>

text \<open>Readings of a call during which the clock shows \<open>t\<close> throughout.\<close>

definition env_at :: "int \<Rightarrow> Readings" where
  "env_at t = \<lparr> profile_now = t, pattern_now = (\<lambda>i. t), signal_now = t,
                signal_rnd = ''k3j9x2m1q'', updated_now = t \<rparr>"

definition tx_first :: Transaction where
  "tx_first = \<lparr> tx_id = ''tx-1'', timestamp = 1000, recipient = ''0xabc'', amount = 10,
                purpose = Some ''hosting'' \<rparr>"

definition tx_second :: Transaction where
  "tx_second = \<lparr> tx_id = ''tx-2'', timestamp = 2000, recipient = ''0xabc'', amount = 20,
                 purpose = Some ''hosting'' \<rparr>"

definition decision_with :: "ThreatLevel \<Rightarrow> string list \<Rightarrow> real \<Rightarrow> ImmuneDecisionResponse"
  where
  "decision_with level labels impact =
     \<lparr> explanation = ''review'', threat_level = level,
       patterns_detected = labels, resilience_impact = impact \<rparr>"

definition tx_to :: "string \<Rightarrow> string \<Rightarrow> int \<Rightarrow> real \<Rightarrow> Transaction" where
  "tx_to ident rcpt t a =
     \<lparr> tx_id = ident, timestamp = t, recipient = rcpt, amount = a, purpose = None \<rparr>"

text \<open>Three payments of 15 to one counterparty.\<close>

definition coffee_ledger :: "Transaction list" where
  "coffee_ledger =
     [tx_to ''c1'' ''0xcafe'' 1000 15, tx_to ''c2'' ''0xcafe'' 2000 15,
      tx_to ''c3'' ''0xcafe'' 3000 15]"

text \<open>A ledger in which \<open>0xabc\<close> has received 30 of the 100 spent.\<close>

definition split_ledger :: "Transaction list" where
  "split_ledger = [tx_to ''a1'' ''0xabc'' 1000 30, tx_to ''b1'' ''0xdef'' 2000 70]"

text \<open>Four payments to one counterparty, the last two twice the first two.\<close>

definition rising_ledger :: "Transaction list" where
  "rising_ledger =
     [tx_to ''r1'' ''0xabc'' 1000 10, tx_to ''r2'' ''0xabc'' 2000 10,
      tx_to ''r3'' ''0xabc'' 3000 20, tx_to ''r4'' ''0xabc'' 4000 20]"

text \<open>A new payment of 49.99 (as a double) to that counterparty.\<close>

definition tx_micro :: Transaction where
  "tx_micro = tx_to ''c4'' ''0xcafe'' 4000 (dbl 49.99)"

text \<open>Three payments of 30, 38.02 and 31.98 (as doubles) to one counterparty.\<close>

definition cents_ledger :: "Transaction list" where
  "cents_ledger =
     [tx_to ''m1'' ''0xcafe'' 1000 30, tx_to ''m2'' ''0xcafe'' 2000 (dbl 38.02),
      tx_to ''m3'' ''0xcafe'' 3000 (dbl 31.98)]"

text \<open>A ledger in which \<open>0xabc\<close> has received 2.01 and another counterparty 4.69.\<close>

definition decimal_ledger :: "Transaction list" where
  "decimal_ledger =
     [tx_to ''d1'' ''0xabc'' 1000 (dbl 2.01), tx_to ''d2'' ''0xdef'' 2000 (dbl 4.69)]"

text \<open>Six payments at intervals of 8, 11, 11, 13 and 13 milliseconds.\<close>

definition uneven_ledger :: "Transaction list" where
  "uneven_ledger =
     [tx_to ''u1'' ''0xabc'' 0 5, tx_to ''u2'' ''0xabc'' 8 9, tx_to ''u3'' ''0xabc'' 19 7,
      tx_to ''u4'' ''0xabc'' 30 5, tx_to ''u5'' ''0xabc'' 43 9, tx_to ''u6'' ''0xabc'' 56 7]"

text \<open>The memory after one detection of \<open>vendor_concentration\<close> for \<open>0xabc\<close>.\<close>

definition memory_one_pattern :: ImmuneMemory where
  "memory_one_pattern =
     recordPatternDetection 1000 ''vendor_concentration'' tx_first MEDIUM (initialMemory 0)"

section \<open>Notions of the specification\<close>

text \<open>
  The definitions of this section follow the words of the specification, not the code;
  the theorems below relate them to the code.
\<close>

text \<open>
  The total of a list of numbers as the program accumulates it: from 0, left to right,
  in binary64.
\<close>

definition running_total :: "real list \<Rightarrow> real" where
  "running_total xs = foldl fadd 0 xs"


text \<open>
  Mean and variance (the mean of the squared deviations from the mean) of a list of
  numbers, each operation in binary64.
\<close>

definition mean :: "real list \<Rightarrow> real" where
  "mean xs = fdiv (running_total xs) (real (length xs))"

definition variance :: "real list \<Rightarrow> real" where
  "variance xs =
     fdiv (running_total (map (\<lambda>x. math_pow_2 (fsub x (mean xs))) xs)) (real (length xs))"


text \<open>The ledger transactions to the counterparty of \<open>new\<close> that are below 50.\<close>

definition microCosts :: "Transaction \<Rightarrow> Transaction list \<Rightarrow> Transaction list" where
  "microCosts new ledger =
     filter (\<lambda>tx. recipient tx = recipient new \<and> amount tx < 50) ledger"

text \<open>The share of the counterparty of \<open>new\<close> in the total historical spend.\<close>

definition spendShare :: "Transaction \<Rightarrow> Transaction list \<Rightarrow> real" where
  "spendShare new ledger =
     sum_list (map amount (filter (\<lambda>tx. recipient tx = recipient new) ledger))
       / sum_list (map amount ledger)"

text \<open>The transaction count and the total of a profile.\<close>

definition historyOf :: "RecipientProfile \<Rightarrow> nat \<times> real" where
  "historyOf p = (tx_count (transactionHistory p), totalAmount (transactionHistory p))"

text \<open>The learning confidence of the pattern stored under a key.\<close>

definition confidenceAt :: "ImmuneMemory \<Rightarrow> string \<Rightarrow> real option" where
  "confidenceAt m k = map_option learningConfidence (map_of (patterns m) k)"

section \<open>Basic facts\<close>

lemma reduce_sum_running_total: "reduce_sum f xs = running_total (map f xs)"
  by (simp add: reduce_sum_def running_total_def foldl_map)

text \<open>The equations that evaluate binary64 arithmetic on numerals.\<close>

lemmas dbl_eval = dbl_def binade_def halvings.simps doublings.simps pow2_def
  round_half_even_def Let_def fadd_def fsub_def fmul_def fdiv_def

lemma dbl_tenth: "dbl 0.1 = 3602879701896397 / 36028797018963968"
  by (simp add: dbl_eval)

lemma show_1000: "show_int 1000 = ''1000''"
  by (simp add: show_int_def decimal.simps)

lemma show_2000: "show_int 2000 = ''2000''"
  by (simp add: show_int_def decimal.simps)

subsection \<open>What each step of \<open>updateMemoryFromTransaction\<close> leaves alone\<close>

lemma resilienceScore_updateRecipientProfile:
  "resilienceScore (updateRecipientProfile now ledger tx m) = resilienceScore m"
  by (simp add: updateRecipientProfile_def Let_def)

lemma resilienceScore_recordPatternDetection:
  "resilienceScore (recordPatternDetection now ptype tx level m) = resilienceScore m"
  by (simp add: recordPatternDetection_def Let_def split: option.split)

lemma resilienceScore_recordAll:
  "resilienceScore (recordAll clock tx level labels m) = resilienceScore m"
  unfolding recordAll_def
  by (induction labels arbitrary: m)
     (simp_all add: resilienceScore_recordPatternDetection split: prod.split)

lemma resilienceScore_generateRiskSignal:
  "resilienceScore (generateRiskSignal now rnd tx d m) = resilienceScore m"
  by (simp add: generateRiskSignal_def)

lemma resilienceScore_updateMemoryFromTransaction:
  "resilienceScore (updateMemoryFromTransaction env ledger tx d m) =
     max 0 (min 100 (fadd (resilienceScore m) (resilience_impact d)))"
  by (simp add: updateMemoryFromTransaction_def Let_def updateResilienceScore_def
        resilienceScore_generateRiskSignal resilienceScore_recordAll
        resilienceScore_updateRecipientProfile)

lemma signals_updateRecipientProfile:
  "signals (updateRecipientProfile now ledger tx m) = signals m"
  by (simp add: updateRecipientProfile_def Let_def)

lemma signals_recordPatternDetection:
  "signals (recordPatternDetection now ptype tx level m) = signals m"
  by (simp add: recordPatternDetection_def Let_def split: option.split)

lemma signals_recordAll:
  "signals (recordAll clock tx level labels m) = signals m"
  unfolding recordAll_def
  by (induction labels arbitrary: m)
     (simp_all add: signals_recordPatternDetection split: prod.split)

lemma signals_updateMemoryFromTransaction:
  "signals (updateMemoryFromTransaction env ledger tx d m) =
     (if threat_level d = HIGH \<or> threat_level d = CRITICAL
      then signals m @
        [\<lparr> sig_id = ''signal-'' @ show_int (signal_now env) @ ''-'' @ signal_rnd env,
           sig_type = first_label_or_default (patterns_detected d),
           sig_severity = threat_level d,
           sig_description =
             show_threat (threat_level d) @ '' threat detected: '' @ explanation d,
           sig_detectedAt = signal_now env,
           relatedTransactions = [tx_id tx],
           isResolved = False \<rparr>]
      else signals m)"
  by (simp add: updateMemoryFromTransaction_def Let_def updateResilienceScore_def
        generateRiskSignal_def signals_recordAll signals_updateRecipientProfile)

lemma patterns_updateRecipientProfile:
  "patterns (updateRecipientProfile now ledger tx m) = patterns m"
  by (simp add: updateRecipientProfile_def Let_def)

text \<open>The stored patterns after a call depend on the stored patterns before it only.\<close>

lemma patterns_updateMemoryFromTransaction:
  "patterns (updateMemoryFromTransaction env ledger tx d m) =
     patterns (recordAll (pattern_now env) tx (threat_level d)
                 (enumerate 0 (patterns_detected d)) m)"
proof -
  have rec: "patterns (recordPatternDetection now ptype tx level m1) =
             patterns (recordPatternDetection now ptype tx level m2)"
    if "patterns m1 = patterns m2" for now ptype level m1 m2
    using that by (simp add: recordPatternDetection_def Let_def split: option.split)
  have all: "patterns (recordAll clock tx level labels m1) =
             patterns (recordAll clock tx level labels m2)"
    if "patterns m1 = patterns m2" for clock level labels m1 m2
    using that unfolding recordAll_def
  proof (induction labels arbitrary: m1 m2)
    case Nil
    then show ?case by simp
  next
    case (Cons l labels)
    show ?case
      by (cases l) (simp add: Cons.IH [OF rec [OF Cons.prems]])
  qed
  show ?thesis
    by (simp add: updateMemoryFromTransaction_def Let_def updateResilienceScore_def
          generateRiskSignal_def all [OF patterns_updateRecipientProfile])
qed

lemma key_first:
  "patternKey ''vendor_concentration'' tx_first 1000 = ''vendor_concentration-0xabc-1000''"
  by (simp add: patternKey_def tx_first_def show_1000)

lemma key_second:
  "patternKey ''vendor_concentration'' tx_second 2000 = ''vendor_concentration-0xabc-2000''"
  by (simp add: patternKey_def tx_second_def show_2000)

section \<open>Pattern identity\<close>

text \<open>
  The two branches of \<open>recordPatternDetection\<close>: a pattern stored under the key of this
  very reading receives the occurrence; otherwise a pattern with one occurrence is added.
\<close>

lemma same_reading_appends:
  assumes "map_of (patterns m) (patternKey t tx now) = Some p"
  shows "map_of (patterns (recordPatternDetection now t tx level m)) (patternKey t tx now)
           = Some (p\<lparr>occurrences := occurrences p @ [newOccurrence tx level]\<rparr>)"
  using assms by (simp add: recordPatternDetection_def Let_def update_conv')

lemma update_absent: "map_of al k = None \<Longrightarrow> AList.update k v al = al @ [(k, v)]"
  by (induction al) (auto split: if_splits)

lemma other_reading_creates:
  assumes "map_of (patterns m) (patternKey t tx now) = None"
  shows "\<exists>p. patterns (recordPatternDetection now t tx level m)
               = patterns m @ [(patternKey t tx now, p)]
             \<and> occurrences p = [newOccurrence tx level]"
  using assms
  by (simp add: recordPatternDetection_def Let_def update_absent)

text \<open>
  C1. The claim: two calls whose decisions list the same pattern type for transactions to
  the same counterparty leave one pattern for that pair, with two occurrences.

  \<open>recordPatternDetection\<close> looks the pattern up under a key that ends in the clock
  reading of the call. Two calls for the pair (\<open>vendor_concentration\<close>, \<open>0xabc\<close>) made at
  the readings 1000 and 2000 therefore store two patterns of that type for that
  counterparty, each with a single occurrence.
\<close>

theorem pattern_key_splits_same_pair:
  "map (\<lambda>(k, p). (k, pat_type p, length (occurrences p)))
     (patterns (processAll
        [(env_at 1000, [tx_first], tx_first,
          decision_with MEDIUM [''vendor_concentration''] (- 5)),
         (env_at 2000, [tx_first, tx_second], tx_second,
          decision_with MEDIUM [''vendor_concentration''] (- 5))]
        (initialMemory 0)))
   = [(''vendor_concentration-0xabc-1000'', ''vendor_concentration'', 1),
      (''vendor_concentration-0xabc-2000'', ''vendor_concentration'', 1)]"
proof -
  define m1 where "m1 = updateMemoryFromTransaction (env_at 1000) [tx_first] tx_first
               (decision_with MEDIUM [''vendor_concentration''] (- 5)) (initialMemory 0)"
  have p1: "patterns m1 =
      [(''vendor_concentration-0xabc-1000'',
        \<lparr> pat_id = ''vendor_concentration-0xabc-1000'',
          pat_type = ''vendor_concentration'',
          pat_description = ''vendor_concentration detected for '' @ recipient tx_first,
          pat_detectedAt = 1000,
          occurrences = [newOccurrence tx_first MEDIUM],
          threatLevel = MEDIUM, isActive = True, learningConfidence = 0.5,
          totalImpact = amount tx_first \<rparr>)]"
    by (simp add: m1_def patterns_updateMemoryFromTransaction recordAll_def
          recordPatternDetection_def key_first Let_def
          env_at_def decision_with_def initialMemory_def)
  have p2: "map (\<lambda>(k, p). (k, pat_type p, length (occurrences p)))
      (patterns (updateMemoryFromTransaction (env_at 2000) [tx_first, tx_second] tx_second
         (decision_with MEDIUM [''vendor_concentration''] (- 5)) m1))
    = [(''vendor_concentration-0xabc-1000'', ''vendor_concentration'', 1),
       (''vendor_concentration-0xabc-2000'', ''vendor_concentration'', 1)]"
    by (simp add: patterns_updateMemoryFromTransaction recordAll_def
          recordPatternDetection_def key_second Let_def p1
          env_at_def decision_with_def)
  show ?thesis
    using p2 by (simp add: m1_def)
qed

section \<open>Resilience score\<close>

text \<open>
  C2. For every starting resilience score in [0,100] and every finite sequence of calls
  of \<open>updateMemoryFromTransaction\<close>, whatever the resilience impacts of their decisions,
  the resulting resilience score is in [0,100].
\<close>

theorem resilience_score_stays_in_range:
  assumes "0 \<le> resilienceScore m" and "resilienceScore m \<le> 100"
  shows "0 \<le> resilienceScore (processAll calls m)
         \<and> resilienceScore (processAll calls m) \<le> 100"
  using assms
proof (induction calls arbitrary: m)
  case Nil
  then show ?case by simp
next
  case (Cons c calls)
  obtain env ledger tx d where c: "c = (env, ledger, tx, d)"
    by (cases c) auto
  let ?m' = "updateMemoryFromTransaction env ledger tx d m"
  have "0 \<le> resilienceScore ?m'" "resilienceScore ?m' \<le> 100"
    by (simp_all add: resilienceScore_updateMemoryFromTransaction)
  then show ?case
    using Cons.IH [of ?m'] by (simp add: c)
qed

theorem resilience_score_stays_in_range_witness:
  "0 \<le> resilienceScore (initialMemory 0) \<and> resilienceScore (initialMemory 0) \<le> 100 \<and>
   0 \<le> resilienceScore (processAll
          [(env_at 1000, [], tx_first, decision_with LOW [] 1000),
           (env_at 2000, [], tx_first, decision_with HIGH [] (- 5000))] (initialMemory 0)) \<and>
   resilienceScore (processAll
          [(env_at 1000, [], tx_first, decision_with LOW [] 1000),
           (env_at 2000, [], tx_first, decision_with HIGH [] (- 5000))] (initialMemory 0))
     \<le> 100"
  using resilience_score_stays_in_range
    [of "initialMemory 0"
        "[(env_at 1000, [], tx_first, decision_with LOW [] 1000),
          (env_at 2000, [], tx_first, decision_with HIGH [] (- 5000))]"]
  by (simp add: initialMemory_def)

section \<open>Risk signals\<close>

text \<open>
  C5. A call of \<open>updateMemoryFromTransaction\<close> whose decision has threat level LOW or
  MEDIUM leaves the list of risk signals as it was; a call whose decision has threat
  level HIGH or CRITICAL appends exactly one signal, which refers to the id of the
  transaction and is not resolved.
\<close>

theorem risk_signal_threshold:
  "(threat_level d = LOW \<or> threat_level d = MEDIUM \<longrightarrow>
      signals (updateMemoryFromTransaction env ledger tx d m) = signals m) \<and>
   (threat_level d = HIGH \<or> threat_level d = CRITICAL \<longrightarrow>
      (\<exists>s. signals (updateMemoryFromTransaction env ledger tx d m) = signals m @ [s]
           \<and> relatedTransactions s = [tx_id tx] \<and> \<not> isResolved s))"
  by (auto simp add: signals_updateMemoryFromTransaction)

theorem risk_signal_threshold_witness:
  "signals (updateMemoryFromTransaction (env_at 1000) [] tx_first
              (decision_with MEDIUM [''vendor_concentration''] (- 2)) (initialMemory 0))
     = signals (initialMemory 0) \<and>
   (\<exists>s. signals (updateMemoryFromTransaction (env_at 1000) [] tx_first
              (decision_with HIGH [''vendor_concentration''] (- 8)) (initialMemory 0))
          = signals (initialMemory 0) @ [s]
        \<and> relatedTransactions s = [tx_id tx_first] \<and> \<not> isResolved s)"
  using risk_signal_threshold
          [where d = "decision_with MEDIUM [''vendor_concentration''] (- 2)"
             and env = "env_at 1000" and ledger = "[]" and tx = tx_first
             and m = "initialMemory 0"]
        risk_signal_threshold
          [where d = "decision_with HIGH [''vendor_concentration''] (- 8)"
             and env = "env_at 1000" and ledger = "[]" and tx = tx_first
             and m = "initialMemory 0"]
  by (simp add: decision_with_def)

text \<open>
  C10. A decision with threat level HIGH or CRITICAL and an empty list of detected
  patterns still appends a risk signal, and the pattern type of that signal is
  \<open>recurring_micro_costs\<close>.
\<close>

theorem risk_signal_default_type:
  assumes "threat_level d = HIGH \<or> threat_level d = CRITICAL"
    and "patterns_detected d = []"
  shows "\<exists>s. signals (updateMemoryFromTransaction env ledger tx d m) = signals m @ [s]
           \<and> sig_type s = ''recurring_micro_costs''"
  using assms by (auto simp add: signals_updateMemoryFromTransaction)

theorem risk_signal_default_type_witness:
  "\<exists>s. signals (updateMemoryFromTransaction (env_at 1000) [] tx_first
              (decision_with CRITICAL [] (- 10)) (initialMemory 0))
          = signals (initialMemory 0) @ [s]
        \<and> sig_type s = ''recurring_micro_costs''"
  using risk_signal_default_type
          [where d = "decision_with CRITICAL [] (- 10)"
             and env = "env_at 1000" and ledger = "[]" and tx = tx_first
             and m = "initialMemory 0"]
  by (simp add: decision_with_def)

section \<open>Recipient profiles are created once\<close>

lemma recipients_recordAll:
  "recipients (recordAll clock tx level labels m) = recipients m"
  unfolding recordAll_def
  by (induction labels arbitrary: m)
     (simp_all add: recordPatternDetection_def Let_def split: prod.split option.split)

lemma recipients_updateMemoryFromTransaction:
  "recipients (updateMemoryFromTransaction env ledger tx d m) =
     recipients (updateRecipientProfile (profile_now env) ledger tx m)"
  by (simp add: updateMemoryFromTransaction_def Let_def updateResilienceScore_def
        generateRiskSignal_def recipients_recordAll)

text \<open>A call for a counterparty that has a stored profile leaves every profile as it is.\<close>

lemma stored_profile_kept:
  assumes "map_of (recipients m) (recipient tx) = Some p"
  shows "recipients (updateMemoryFromTransaction env ledger tx d m) = recipients m"
  using assms
  by (simp add: recipients_updateMemoryFromTransaction updateRecipientProfile_def Let_def
        update_triv)

text \<open>
  C3. The claim: a call for a counterparty that already has a stored profile replaces
  the profile with one recomputed from the full history of that counterparty.

  \<open>updateRecipientProfile\<close> takes \<^verbatim>\<open>existing || buildRecipientProfile(...)\<close>, so the
  history is only used when there is no stored profile. After a first call with the
  ledger \<open>[tx_first]\<close> and a second call with the ledger \<open>[tx_first, tx_second]\<close>, both
  to \<open>0xabc\<close>, the stored profile still counts one transaction with total 10, while
  the profile built from the history of the second call counts two with total 30.
\<close>

theorem stored_profile_not_recomputed:
  "map_option historyOf
     (map_of (recipients (processAll
        [(env_at 1000, [tx_first], tx_first, decision_with LOW [] 0),
         (env_at 2000, [tx_first, tx_second], tx_second, decision_with LOW [] 0)]
        (initialMemory 0))) ''0xabc'') = Some (1, 10) \<and>
   historyOf (buildRecipientProfile 2000 [tx_first, tx_second] ''0xabc''
                [tx_first, tx_second]) = (2, 30)"
proof -
  define m1 where "m1 = updateMemoryFromTransaction (env_at 1000) [tx_first] tx_first
               (decision_with LOW [] 0) (initialMemory 0)"
  have r1: "recipients m1 =
      [(''0xabc'', buildRecipientProfile 1000 [tx_first] ''0xabc'' [tx_first])]"
    by (simp add: m1_def recipients_updateMemoryFromTransaction updateRecipientProfile_def
          Let_def initialMemory_def env_at_def tx_first_def)
  have k: "map_of (recipients m1) (recipient tx_second) =
      Some (buildRecipientProfile 1000 [tx_first] ''0xabc'' [tx_first])"
    by (simp add: r1 tx_second_def)
  have r2: "recipients (updateMemoryFromTransaction (env_at 2000) [tx_first, tx_second]
               tx_second (decision_with LOW [] 0) m1) = recipients m1"
    by (rule stored_profile_kept [OF k])
  have h1: "historyOf (buildRecipientProfile 1000 [tx_first] ''0xabc'' [tx_first]) = (1, 10)"
    by (simp add: historyOf_def buildRecipientProfile_def reduce_sum_def tx_first_def
          dbl_eval)
  have h2: "historyOf (buildRecipientProfile 2000 [tx_first, tx_second] ''0xabc''
                [tx_first, tx_second]) = (2, 30)"
    by (simp add: historyOf_def buildRecipientProfile_def reduce_sum_def tx_first_def
          tx_second_def dbl_eval)
  have "processAll
        [(env_at 1000, [tx_first], tx_first, decision_with LOW [] 0),
         (env_at 2000, [tx_first, tx_second], tx_second, decision_with LOW [] 0)]
        (initialMemory 0)
      = updateMemoryFromTransaction (env_at 2000) [tx_first, tx_second]
               tx_second (decision_with LOW [] 0) m1"
    by (simp add: m1_def)
  then show ?thesis
    by (simp add: r2 r1 h1 h2)
qed

section \<open>Cadence classification\<close>





text \<open>
  At intervals of 8, 11, 11, 13 and 13 the mean is 11.2 and the exact variance 3.36 is
  30% of it; the program computes a variance one unit in the last place below its
  threshold, and the list is regular.
\<close>

lemma uneven_ledger_regular: "analyzeTimePattern uneven_ledger = Regular"
proof -
  have i: "intervals_of uneven_ledger = [8, 11, 11, 13, 13]"
    by (simp add: intervals_of_def uneven_ledger_def tx_to_def dbl_eval)
  have m: "fdiv (reduce_sum (\<lambda>i. i) [8, 11, 11, 13, 13]) 5
             = 3152519739159347 / 281474976710656"
    by (simp add: reduce_sum_def dbl_eval)
  have v: "fdiv (reduce_sum
                  (\<lambda>i. math_pow_2 (fsub i (3152519739159347 / 281474976710656)))
                  [8, 11, 11, 13, 13]) 5
             = 236438980436951 / 70368744177664"
    by (simp add: reduce_sum_def math_pow_2_def dbl_eval)
  have t: "fmul (3152519739159347 / 281474976710656) (dbl 0.3)
             = 7566047373982433 / 2251799813685248"
    by (simp add: dbl_eval)
  have "length uneven_ledger = 6"
    by (simp add: uneven_ledger_def)
  then show ?thesis
    by (simp add: analyzeTimePattern_def Let_def i m v t)
qed

section \<open>Detector boundaries\<close>

text \<open>
  C6. The Recurring Micro-Costs detector does not fire for a new transaction of amount
  50 (or more). It fires for a new transaction below 50, such as 49.99, when the ledger
  holds at least three transactions below 50 to the same counterparty. Its cumulative
  total is the running total of those transactions, and its threat level is HIGH when
  that total exceeds 200, MEDIUM when it exceeds 100, and LOW otherwise.
\<close>

theorem micro_cost_boundaries:
  "(amount new \<ge> 50 \<longrightarrow> detectRecurringMicroCosts now new ledger = None) \<and>
   (amount new < 50 \<and> 3 \<le> length (microCosts new ledger) \<longrightarrow>
      (\<exists>p. detectRecurringMicroCosts now new ledger = Some p \<and>
           totalImpact p = running_total (map amount (microCosts new ledger)) \<and>
           threatLevel p =
             (if totalImpact p > 200 then HIGH
              else if totalImpact p > 100 then MEDIUM
              else LOW)))"
  by (simp add: detectRecurringMicroCosts_def microCosts_def Let_def
        reduce_sum_running_total)

text \<open>
  Instances: no pattern at amount 50; at 49.99 after three payments of 15 the total is
  45 and the level LOW; after payments of 30, 38.02 and 31.98 the running total is
  100.00000000000001 and the level MEDIUM.
\<close>

theorem micro_cost_boundaries_witness:
  "detectRecurringMicroCosts 9000 (tx_to ''c4'' ''0xcafe'' 4000 50) coffee_ledger = None \<and>
   (\<exists>p. detectRecurringMicroCosts 9000 tx_micro coffee_ledger = Some p
        \<and> totalImpact p = 45 \<and> threatLevel p = LOW) \<and>
   (\<exists>p. detectRecurringMicroCosts 9000 tx_micro cents_ledger = Some p
        \<and> totalImpact p = 7036874417766401 / 70368744177664 \<and> threatLevel p = MEDIUM)"
proof -
  have below: "amount tx_micro < 50"
    by (simp add: tx_micro_def tx_to_def dbl_eval)
  have c: "microCosts tx_micro coffee_ledger = coffee_ledger"
    by (simp add: microCosts_def coffee_ledger_def tx_micro_def tx_to_def)
  have m: "microCosts tx_micro cents_ledger = cents_ledger"
    by (simp add: microCosts_def cents_ledger_def tx_micro_def tx_to_def dbl_eval)
  have tc: "running_total (map amount coffee_ledger) = 45"
    by (simp add: running_total_def coffee_ledger_def tx_to_def dbl_eval)
  have tm: "running_total (map amount cents_ledger) = 7036874417766401 / 70368744177664"
    by (simp add: running_total_def cents_ledger_def tx_to_def dbl_eval)
  have lc: "3 \<le> length (microCosts tx_micro coffee_ledger)"
    unfolding c by (simp add: coffee_ledger_def)
  have lm: "3 \<le> length (microCosts tx_micro cents_ledger)"
    unfolding m by (simp add: cents_ledger_def)
  have none: "detectRecurringMicroCosts 9000 (tx_to ''c4'' ''0xcafe'' 4000 50) coffee_ledger
                = None"
    using micro_cost_boundaries [of "tx_to ''c4'' ''0xcafe'' 4000 50" 9000 coffee_ledger]
    by (simp add: tx_to_def)
  obtain p where p: "detectRecurringMicroCosts 9000 tx_micro coffee_ledger = Some p"
      "totalImpact p = running_total (map amount (microCosts tx_micro coffee_ledger))"
      "threatLevel p =
         (if totalImpact p > 200 then HIGH else if totalImpact p > 100 then MEDIUM else LOW)"
    using micro_cost_boundaries [of tx_micro 9000 coffee_ledger] below lc by blast
  have low: "totalImpact p = 45 \<and> threatLevel p = LOW"
    using p(2,3) by (simp add: c tc)
  obtain q where q: "detectRecurringMicroCosts 9000 tx_micro cents_ledger = Some q"
      "totalImpact q = running_total (map amount (microCosts tx_micro cents_ledger))"
      "threatLevel q =
         (if totalImpact q > 200 then HIGH else if totalImpact q > 100 then MEDIUM else LOW)"
    using micro_cost_boundaries [of tx_micro 9000 cents_ledger] below lm by blast
  have tq: "totalImpact q = 7036874417766401 / 70368744177664"
    using q(2) by (simp only: m tm)
  have medium: "threatLevel q = MEDIUM"
    unfolding q(3) tq by simp
  show ?thesis
    using none p(1) low q(1) tq medium by blast
qed

text \<open>
  C4. The claim: the Vendor Concentration detector does not fire for a counterparty
  whose share of the total spend is exactly 30%.

  The guard of the detector is \<^verbatim>\<open>concentration < 0.3\<close>. With 30 spent on \<open>0xabc\<close> out
  of 100 the share is exactly 30%, the quotient \<^verbatim>\<open>30 / 100\<close> is the double of the
  literal \<^verbatim>\<open>0.3\<close>, and the detector fires, with threat level LOW.
\<close>

theorem vendor_concentration_fires_at_30_percent:
  "spendShare (tx_to ''a1'' ''0xabc'' 1000 30) split_ledger = 0.3 \<and>
   map_option threatLevel
     (detectVendorConcentration 9000 (tx_to ''a1'' ''0xabc'' 1000 30) split_ledger)
     = Some LOW"
proof -
  have r: "reduce_sum amount
             (filter (\<lambda>tx. recipient tx = recipient (tx_to ''a1'' ''0xabc'' 1000 30))
                split_ledger) = 30"
    by (simp add: reduce_sum_def split_ledger_def tx_to_def dbl_eval)
  have t: "reduce_sum amount split_ledger = 100"
    by (simp add: reduce_sum_def split_ledger_def tx_to_def dbl_eval)
  have q: "fdiv 30 100 = dbl 0.3"
    by (simp add: fdiv_def)
  have v: "dbl (3 / 10) = 5404319552844595 / 18014398509481984"
          "dbl (2 / 5) = 3602879701896397 / 9007199254740992"
          "dbl (3 / 5) = 5404319552844595 / 9007199254740992"
    by (simp_all add: dbl_eval)
  have s: "spendShare (tx_to ''a1'' ''0xabc'' 1000 30) split_ledger = 0.3"
    by (simp add: spendShare_def split_ledger_def tx_to_def)
  have d: "map_option threatLevel
     (detectVendorConcentration 9000 (tx_to ''a1'' ''0xabc'' 1000 30) split_ledger)
     = Some LOW"
    by (simp add: detectVendorConcentration_def Let_def r t q v)
  show ?thesis
    using s d by (rule conjI)
qed

text \<open>
  What the guard compares is the rounded quotient of the two running totals: the
  detector fires exactly when the total is not zero and that quotient is not below the
  double of 0.3.
\<close>

lemma vendor_concentration_guard:
  "(detectVendorConcentration now new ledger \<noteq> None) =
     (running_total (map amount ledger) \<noteq> 0 \<and>
      \<not> fdiv (running_total
                 (map amount (filter (\<lambda>tx. recipient tx = recipient new) ledger)))
              (running_total (map amount ledger)) < dbl 0.3)"
  by (simp add: detectVendorConcentration_def Let_def reduce_sum_running_total)

text \<open>
  With 2.01 spent on \<open>0xabc\<close> and 4.69 elsewhere the quotient is
  0.29999999999999993, and the detector does not fire.
\<close>

lemma vendor_concentration_rounded_share:
  "detectVendorConcentration 9000 (tx_to ''d1'' ''0xabc'' 1000 (dbl 2.01)) decimal_ledger
     = None"
  by (simp add: detectVendorConcentration_def reduce_sum_def decimal_ledger_def tx_to_def
        dbl_eval)

text \<open>
  C9. The claim: every occurrence that a detector constructs has a severity in [0,1].

  The Declining Value detector sets the severity to the amount divided by the average of
  the two earliest amounts. For payments of 10, 10, 20, 20 to one counterparty it
  fires, and the severities of its occurrences are 1, 2 and 2.
\<close>

theorem declining_value_severity_exceeds_one:
  "map_option (\<lambda>p. map severity (occurrences p))
     (detectDecliningValue 9000 numToString toFixed2
        (tx_to ''r4'' ''0xabc'' 4000 20) rising_ledger)
   = Some [Finite 1, Finite 2, Finite 2]"
  by (simp add: detectDecliningValue_def rising_ledger_def tx_to_def reduce_sum_def
        slice_last_def js_div_def dbl_eval)

section \<open>Sensitivity adaptation\<close>

lemma map_of_adaptSensitivity:
  "map_of (patterns (adaptSensitivity now rnd t out m)) k =
     map_option
       (\<lambda>p. if pat_type p = t
            then p\<lparr>learningConfidence := adaptConfidence out (learningConfidence p)\<rparr>
            else p)
       (map_of (patterns m) k)"
proof -
  have "map_of (map (\<lambda>(k, p). if c p then (k, g p) else (k, p)) al) k =
        map_option (\<lambda>p. if c p then g p else p) (map_of al k)"
    for c g and al :: "(string \<times> EconomicPattern) list"
    by (induction al) auto
  then show ?thesis
    by (simp add: adaptSensitivity_def Let_def)
qed

lemma adapt_once:
  assumes "map_of (patterns m) k = Some p" and "pat_type p = t"
  shows "map_of (patterns (adaptSensitivity now rnd t out m)) k =
           Some (p\<lparr>learningConfidence := adaptConfidence out (learningConfidence p)\<rparr>)"
  using assms by (simp add: map_of_adaptSensitivity)

text \<open>
  C8, as claimed: from a confidence of 0.5, three successes in a row give 0.8 and three
  failures in a row give 0.2. The program adds and subtracts the double of 0.1 in
  binary64: from the stored confidence 0.5 the three sums end at 0.7999999999999999 and
  the three differences at 0.20000000000000004.
\<close>

theorem three_steps_miss_exact_values:
  "confidenceAt
     (adaptSensitivity 5003 ''a3'' ''vendor_concentration'' Success
       (adaptSensitivity 5002 ''a2'' ''vendor_concentration'' Success
         (adaptSensitivity 5001 ''a1'' ''vendor_concentration'' Success memory_one_pattern)))
     ''vendor_concentration-0xabc-1000'' \<noteq> Some 0.8 \<and>
   confidenceAt
     (adaptSensitivity 5003 ''a3'' ''vendor_concentration'' Failure
       (adaptSensitivity 5002 ''a2'' ''vendor_concentration'' Failure
         (adaptSensitivity 5001 ''a1'' ''vendor_concentration'' Failure memory_one_pattern)))
     ''vendor_concentration-0xabc-1000'' \<noteq> Some 0.2"
proof -
  have stored: "map_of (patterns memory_one_pattern) ''vendor_concentration-0xabc-1000'' =
      Some \<lparr> pat_id = ''vendor_concentration-0xabc-1000'',
          pat_type = ''vendor_concentration'',
          pat_description = ''vendor_concentration detected for '' @ recipient tx_first,
          pat_detectedAt = 1000,
          occurrences = [newOccurrence tx_first MEDIUM],
          threatLevel = MEDIUM, isActive = True, learningConfidence = 0.5,
          totalImpact = amount tx_first \<rparr>"
    by (simp add: memory_one_pattern_def recordPatternDetection_def key_first Let_def
          initialMemory_def)
  have up: "adaptConfidence Success
              (adaptConfidence Success (adaptConfidence Success (1 / 2)))
              = 7205759403792793 / 9007199254740992"
    by (simp add: adaptConfidence_def dbl_eval)
  have down: "adaptConfidence Failure
                (adaptConfidence Failure (adaptConfidence Failure (1 / 2)))
              = 7205759403792795 / 36028797018963968"
    by (simp add: adaptConfidence_def dbl_eval)
  show ?thesis
    by (simp add: confidenceAt_def map_of_adaptSensitivity stored up down)
qed

text \<open>
  C8, amended: for every stored pattern of the given type, \<open>adaptSensitivity\<close> replaces
  the learning confidence \<open>c\<close> by \<open>min 1.0 (c + 0.1)\<close> on success and by
  \<open>max 0.1 (c - 0.1)\<close> on failure, where \<open>0.1\<close> is the double of that literal and the sum
  and the difference are rounded to binary64. From a confidence of 0.5, three successes
  in a row give \<open>7205759403792793 / 2 ^ 53\<close> (printed 0.7999999999999999) and three
  failures in a row give \<open>7205759403792795 / 2 ^ 55\<close> (printed 0.20000000000000004).
\<close>

theorem adaptSensitivity_fixed_step:
  assumes "map_of (patterns m) k = Some p" and "pat_type p = t"
  shows
   "confidenceAt (adaptSensitivity now rnd t Success m) k
      = Some (min 1 (fadd (learningConfidence p) (dbl 0.1))) \<and>
    confidenceAt (adaptSensitivity now rnd t Failure m) k
      = Some (max (dbl 0.1) (fsub (learningConfidence p) (dbl 0.1))) \<and>
    (learningConfidence p = 0.5 \<longrightarrow>
       confidenceAt
         (adaptSensitivity n3 r3 t Success
           (adaptSensitivity n2 r2 t Success (adaptSensitivity n1 r1 t Success m))) k
         = Some (7205759403792793 / 2 ^ 53) \<and>
       confidenceAt
         (adaptSensitivity n3 r3 t Failure
           (adaptSensitivity n2 r2 t Failure (adaptSensitivity n1 r1 t Failure m))) k
         = Some (7205759403792795 / 2 ^ 55))"
proof -
  have three: "confidenceAt
         (adaptSensitivity n3 r3 t out
           (adaptSensitivity n2 r2 t out (adaptSensitivity n1 r1 t out m))) k
       = Some (adaptConfidence out (adaptConfidence out (adaptConfidence out
                 (learningConfidence p))))" for out
  proof -
    note s1 = adapt_once [OF assms, of n1 r1 out]
    have s2: "map_of (patterns (adaptSensitivity n2 r2 t out (adaptSensitivity n1 r1 t out m))) k
        = Some (p\<lparr>learningConfidence :=
                   adaptConfidence out (adaptConfidence out (learningConfidence p))\<rparr>)"
      using adapt_once [OF s1, of t n2 r2 out] assms(2) by simp
    show ?thesis
      using adapt_once [OF s2, of t n3 r3 out] assms(2) by (simp add: confidenceAt_def)
  qed
  have one: "confidenceAt (adaptSensitivity now rnd t out m) k
       = Some (adaptConfidence out (learningConfidence p))" for out
    using adapt_once [OF assms, of now rnd out] by (simp add: confidenceAt_def)
  have up: "adaptConfidence Success (adaptConfidence Success (adaptConfidence Success 0.5))
              = 7205759403792793 / 2 ^ 53"
    by (simp add: adaptConfidence_def dbl_eval)
  have down: "adaptConfidence Failure (adaptConfidence Failure (adaptConfidence Failure 0.5))
              = 7205759403792795 / 2 ^ 55"
    by (simp add: adaptConfidence_def dbl_eval)
  have succ: "confidenceAt (adaptSensitivity now rnd t Success m) k
      = Some (min 1 (fadd (learningConfidence p) (dbl 0.1)))"
    unfolding one by (simp add: adaptConfidence_def)
  have fail: "confidenceAt (adaptSensitivity now rnd t Failure m) k
      = Some (max (dbl 0.1) (fsub (learningConfidence p) (dbl 0.1)))"
    unfolding one by (simp add: adaptConfidence_def)
  have scenario: "confidenceAt
         (adaptSensitivity n3 r3 t Success
           (adaptSensitivity n2 r2 t Success (adaptSensitivity n1 r1 t Success m))) k
         = Some (7205759403792793 / 2 ^ 53) \<and>
       confidenceAt
         (adaptSensitivity n3 r3 t Failure
           (adaptSensitivity n2 r2 t Failure (adaptSensitivity n1 r1 t Failure m))) k
         = Some (7205759403792795 / 2 ^ 55)"
    if half: "learningConfidence p = 0.5"
    unfolding three half up down by (rule conjI; rule refl)
  show ?thesis
    using succ fail scenario by blast
qed

theorem adaptSensitivity_fixed_step_witness:
  "confidenceAt (adaptSensitivity 5000 ''a1'' ''vendor_concentration'' Success
      memory_one_pattern) ''vendor_concentration-0xabc-1000'' = Some (dbl 0.6) \<and>
   confidenceAt (adaptSensitivity 5000 ''a1'' ''vendor_concentration'' Failure
      memory_one_pattern) ''vendor_concentration-0xabc-1000'' = Some (dbl 0.4) \<and>
   confidenceAt
     (adaptSensitivity 5003 ''a3'' ''vendor_concentration'' Success
       (adaptSensitivity 5002 ''a2'' ''vendor_concentration'' Success
         (adaptSensitivity 5001 ''a1'' ''vendor_concentration'' Success memory_one_pattern)))
     ''vendor_concentration-0xabc-1000'' = Some (7205759403792793 / 2 ^ 53) \<and>
   confidenceAt
     (adaptSensitivity 5003 ''a3'' ''vendor_concentration'' Failure
       (adaptSensitivity 5002 ''a2'' ''vendor_concentration'' Failure
         (adaptSensitivity 5001 ''a1'' ''vendor_concentration'' Failure memory_one_pattern)))
     ''vendor_concentration-0xabc-1000'' = Some (7205759403792795 / 2 ^ 55)"
proof -
  have stored: "map_of (patterns memory_one_pattern) ''vendor_concentration-0xabc-1000'' =
      Some \<lparr> pat_id = ''vendor_concentration-0xabc-1000'',
          pat_type = ''vendor_concentration'',
          pat_description = ''vendor_concentration detected for '' @ recipient tx_first,
          pat_detectedAt = 1000,
          occurrences = [newOccurrence tx_first MEDIUM],
          threatLevel = MEDIUM, isActive = True, learningConfidence = 0.5,
          totalImpact = amount tx_first \<rparr>"
    by (simp add: memory_one_pattern_def recordPatternDetection_def key_first Let_def
          initialMemory_def)
  have e: "min 1 (fadd (1 / 2) (dbl (1 / 10))) = dbl (3 / 5)"
          "max (dbl (1 / 10)) (fsub (1 / 2) (dbl (1 / 10))) = dbl (2 / 5)"
    by (simp_all add: dbl_eval)
  show ?thesis
    using adaptSensitivity_fixed_step [OF stored, of "''vendor_concentration''"
            5000 "''a1''" 5003 "''a3''" 5002 "''a2''" 5001 "''a1''"]
    by (simp add: e)
qed

end
